theory Spec2Isabelle
  imports Main "HOL-Library.Word" "HOL-Library.Sublist"
begin

unbundle bit_operations_syntax

section \<open>The SPI backend of the SSD1306 driver (ssd1306\_spi.c)\<close>

text \<open>
  The file drives the display controller over four-wire SPI. Everything it does beyond
  returning a status is a call into the platform (GPIO, the SPI master driver, the RTOS
  delay, the allocator), so the model threads a \<open>world\<close> through every function: the
  log of the platform calls and of the writes to the caller's device handle made so far,
  the allocated backend contexts, the tick rate the RTOS was built with, and the results
  the platform will give to the calls that return one.

  A result of \<open>None\<close> stands for undefined behaviour of the C program (a shift by an
  out-of-range pin number, a read through a pointer that is not live, a read past the
  end of the payload buffer).
\<close>

subsection \<open>Platform types\<close>

type_synonym uintptr_t = "32 word"
type_synonym c_int = "32 word"
type_synonym uint8_t = "8 word"
type_synonym uint32_t = "32 word"
type_synonym uint64_t = "64 word"

text \<open>\<open>esp_err_t\<close> with the three codes the file names (values of esp\_err.h).\<close>

type_synonym esp_err_t = int

definition ESP_OK :: esp_err_t where
  "ESP_OK = 0"

definition ESP_ERR_NO_MEM :: esp_err_t where
  "ESP_ERR_NO_MEM = 0x101"

definition ESP_ERR_INVALID_ARG :: esp_err_t where
  "ESP_ERR_INVALID_ARG = 0x102"

text \<open>\<open>gpio_num_t\<close> is an enum; \<open>GPIO_NUM_NC\<close> (not connected) is -1.\<close>

type_synonym gpio_num_t = int

definition GPIO_NUM_NC :: gpio_num_t where
  "GPIO_NUM_NC = -1"

type_synonym spi_device_handle_t = uintptr_t
type_synonym spi_host_device_t = int

definition NULL :: uintptr_t where
  "NULL = 0"

subsection \<open>Backend context\<close>

record ssd1306_spi_ctx_t =
  dev :: spi_device_handle_t
  host :: spi_host_device_t
  dc_gpio :: gpio_num_t
  rst_gpio :: gpio_num_t
  clk_hz :: int

text \<open>What \<open>calloc\<close> hands out: every field zero.\<close>

definition zeroed_ctx :: ssd1306_spi_ctx_t where
  "zeroed_ctx = \<lparr>dev = 0, host = 0, dc_gpio = 0, rst_gpio = 0, clk_hz = 0\<rparr>"

subsection \<open>The D/C bit packed into the transaction's user pointer\<close>

text \<open>
  Pointers and \<open>int\<close> are both 32 bits wide on the target, so the casts between
  \<open>int\<close> and \<open>uintptr_t\<close> keep the bit pattern (\<open>ucast\<close> at equal width).
\<close>

definition pack_user :: "uintptr_t \<Rightarrow> c_int \<Rightarrow> uintptr_t" where
  "pack_user c dc_bit = c OR ucast (dc_bit AND 1)"

definition unpack_ctx :: "uintptr_t \<Rightarrow> uintptr_t" where
  "unpack_ctx u = u AND NOT 1"

definition unpack_dc :: "uintptr_t \<Rightarrow> c_int" where
  "unpack_dc u = ucast (u AND 1)"

subsection \<open>Arguments of the platform calls\<close>

datatype gpio_mode_t =
    GPIO_MODE_DISABLE | GPIO_MODE_INPUT | GPIO_MODE_OUTPUT | GPIO_MODE_OUTPUT_OD
  | GPIO_MODE_INPUT_OUTPUT_OD | GPIO_MODE_INPUT_OUTPUT
datatype gpio_pullup_t = GPIO_PULLUP_DISABLE | GPIO_PULLUP_ENABLE
datatype gpio_pulldown_t = GPIO_PULLDOWN_DISABLE | GPIO_PULLDOWN_ENABLE
datatype gpio_int_type_t =
    GPIO_INTR_DISABLE | GPIO_INTR_POSEDGE | GPIO_INTR_NEGEDGE | GPIO_INTR_ANYEDGE
  | GPIO_INTR_LOW_LEVEL | GPIO_INTR_HIGH_LEVEL

record gpio_config_t =
  pin_bit_mask :: uint64_t
  mode :: gpio_mode_t
  pull_up_en :: gpio_pullup_t
  pull_down_en :: gpio_pulldown_t
  intr_type :: gpio_int_type_t

text \<open>The only pre-transfer callback the file registers is \<open>spi_pre_cb_set_dc\<close>.\<close>

datatype pre_cb_t = SPI_PRE_CB_SET_DC

record spi_device_interface_config_t =
  clock_speed_hz :: int
  spi_mode :: nat
  spics_io_num :: gpio_num_t
  queue_size :: int
  pre_cb :: pre_cb_t
  flags :: uint32_t

text \<open>
  A transaction after \<open>memset(&t, 0, sizeof(t))\<close> and the three assignments: the length
  in bits, the bytes that \<open>tx_buffer\<close> points at (\<open>blk\<close> of them, from offset \<open>off\<close> of
  the payload), and the packed user pointer. Every other field is zero.
\<close>

record spi_transaction_t =
  t_length :: uint32_t
  tx_buffer :: "uint8_t list"
  user :: uintptr_t

subsection \<open>The world: log of effects, allocated contexts, platform results\<close>

text \<open>
  The value stored into the handle's \<open>vt\<close> member, as the log names it: the null pointer
  or the address of \<open>VT_SPI\<close> (the table itself holds functions on the world, so the log
  cannot carry it).
\<close>

datatype vt_ptr = VT_NULL | VT_SPI_ADDR

text \<open>
  One entry per platform call, with the arguments the call is made with, and one per
  store into the device handle (\<open>d->vt = ...\<close>, \<open>d->bus_ctx = ...\<close>), all in program
  order. \<open>VTaskDelay\<close> carries the tick count that \<open>vTaskDelay\<close> receives.
\<close>

datatype event =
    Gpio_config gpio_config_t
  | Gpio_set_level gpio_num_t uint32_t
  | VTaskDelay uint32_t
  | Spi_bus_add_device spi_host_device_t spi_device_interface_config_t
  | Spi_bus_remove_device spi_device_handle_t
  | Spi_device_polling_transmit spi_device_handle_t spi_transaction_t
  | Calloc
  | Free uintptr_t
  | Store_vt vt_ptr
  | Store_bus_ctx uintptr_t

text \<open>
  \<open>events\<close> is the log, oldest entry first. \<open>heap\<close> holds the live backend contexts by
  address. \<open>configTICK_RATE_HZ\<close> is the tick rate of the FreeRTOS build (a constant of
  FreeRTOSConfig.h that the sources do not fix; no function changes it). The four
  \<open>_ret\<close> fields are what the platform answers to the calls still to come: entry 0 is
  the answer to the next call, and each call shifts the sequence by one. Any behaviour
  of the platform on a run is one choice of these sequences.
\<close>

record world =
  events :: "event list"
  heap :: "uintptr_t \<Rightarrow> ssd1306_spi_ctx_t option"
  configTICK_RATE_HZ :: uint32_t
  add_device_ret :: "nat \<Rightarrow> esp_err_t \<times> spi_device_handle_t"
  remove_device_ret :: "nat \<Rightarrow> esp_err_t"
  transmit_ret :: "nat \<Rightarrow> esp_err_t"
  calloc_ret :: "nat \<Rightarrow> uintptr_t"

definition log_event :: "event \<Rightarrow> world \<Rightarrow> world" where
  "log_event e w = w\<lparr>events := events w @ [e]\<rparr>"

text \<open>The source discards the results of \<open>gpio_config\<close> and \<open>gpio_set_level\<close>.\<close>

definition gpio_config :: "gpio_config_t \<Rightarrow> world \<Rightarrow> world" where
  "gpio_config io w = log_event (Gpio_config io) w"

definition gpio_set_level :: "gpio_num_t \<Rightarrow> uint32_t \<Rightarrow> world \<Rightarrow> world" where
  "gpio_set_level pin level w = log_event (Gpio_set_level pin level) w"

text \<open>
  FreeRTOS's macro (projdefs.h), on \<open>TickType_t\<close>, which is \<open>uint32_t\<close> on the target:
  \<open>((TickType_t)(xTimeInMs) * (TickType_t)configTICK_RATE_HZ) / (TickType_t)1000U\<close>.
  The product wraps at 32 bits and the division truncates.
\<close>

definition pdMS_TO_TICKS :: "world \<Rightarrow> uint32_t \<Rightarrow> uint32_t" where
  "pdMS_TO_TICKS w xTimeInMs = (xTimeInMs * configTICK_RATE_HZ w) div 1000"

definition vTaskDelay :: "uint32_t \<Rightarrow> world \<Rightarrow> world" where
  "vTaskDelay xTicksToDelay w = log_event (VTaskDelay xTicksToDelay) w"

text \<open>The stores into the device handle, as the log sees them.\<close>

definition store_vt :: "vt_ptr \<Rightarrow> world \<Rightarrow> world" where
  "store_vt v w = log_event (Store_vt v) w"

definition store_bus_ctx :: "uintptr_t \<Rightarrow> world \<Rightarrow> world" where
  "store_bus_ctx p w = log_event (Store_bus_ctx p) w"

definition spi_bus_add_device ::
  "spi_host_device_t \<Rightarrow> spi_device_interface_config_t \<Rightarrow> world
    \<Rightarrow> esp_err_t \<times> spi_device_handle_t \<times> world" where
  "spi_bus_add_device hst cfg w =
     (fst (add_device_ret w 0), snd (add_device_ret w 0),
      log_event (Spi_bus_add_device hst cfg)
        (w\<lparr>add_device_ret := (\<lambda>k. add_device_ret w (Suc k))\<rparr>))"

definition spi_bus_remove_device :: "spi_device_handle_t \<Rightarrow> world \<Rightarrow> esp_err_t \<times> world" where
  "spi_bus_remove_device dv w =
     (remove_device_ret w 0,
      log_event (Spi_bus_remove_device dv)
        (w\<lparr>remove_device_ret := (\<lambda>k. remove_device_ret w (Suc k))\<rparr>))"

definition spi_device_polling_transmit ::
  "spi_device_handle_t \<Rightarrow> spi_transaction_t \<Rightarrow> world \<Rightarrow> esp_err_t \<times> world" where
  "spi_device_polling_transmit dv t w =
     (transmit_ret w 0,
      log_event (Spi_device_polling_transmit dv t)
        (w\<lparr>transmit_ret := (\<lambda>k. transmit_ret w (Suc k))\<rparr>))"

text \<open>\<open>calloc(1, sizeof(*ctx))\<close>: a null pointer, or the address of a zeroed context.\<close>

definition calloc_ctx :: "world \<Rightarrow> uintptr_t \<times> world" where
  "calloc_ctx w =
     (let p = calloc_ret w 0;
          w' = log_event Calloc (w\<lparr>calloc_ret := (\<lambda>k. calloc_ret w (Suc k))\<rparr>)
      in (p, if p = NULL then w' else w'\<lparr>heap := (heap w')(p \<mapsto> zeroed_ctx)\<rparr>))"

definition free_ctx :: "uintptr_t \<Rightarrow> world \<Rightarrow> world" where
  "free_ctx p w = log_event (Free p) (w\<lparr>heap := (heap w)(p := None)\<rparr>)"

subsection \<open>The pre-transfer callback\<close>

definition spi_pre_cb_set_dc :: "spi_transaction_t \<Rightarrow> world \<Rightarrow> world option" where
  "spi_pre_cb_set_dc t w =
     (let c = unpack_ctx (user t);
          dc = unpack_dc (user t)
      in case heap w c of
           None \<Rightarrow> None
         | Some cv \<Rightarrow>
             if dc_gpio cv \<noteq> GPIO_NUM_NC
             then Some (gpio_set_level (dc_gpio cv) (ucast dc) w)
             else Some w)"

subsection \<open>Small GPIO helpers\<close>

text \<open>
  \<open>1ULL << pin\<close> is defined only for a shift count from 0 to 63; the helpers reach it
  with every pin other than \<open>GPIO_NUM_NC\<close>.
\<close>

definition gpio_conf_output :: "gpio_num_t \<Rightarrow> uint32_t \<Rightarrow> world \<Rightarrow> world option" where
  "gpio_conf_output pin level w =
     (if pin = GPIO_NUM_NC then Some w
      else if pin < 0 \<or> 64 \<le> pin then None
      else
        let io = \<lparr>pin_bit_mask = push_bit (nat pin) 1,
                  mode = GPIO_MODE_OUTPUT,
                  pull_up_en = GPIO_PULLUP_DISABLE,
                  pull_down_en = GPIO_PULLDOWN_DISABLE,
                  intr_type = GPIO_INTR_DISABLE\<rparr>;
            w1 = gpio_config io w
        in Some (gpio_set_level pin level w1))"

definition gpio_conf_disable :: "gpio_num_t \<Rightarrow> world \<Rightarrow> world option" where
  "gpio_conf_disable pin w =
     (if pin = GPIO_NUM_NC then Some w
      else if pin < 0 \<or> 64 \<le> pin then None
      else
        let io = \<lparr>pin_bit_mask = push_bit (nat pin) 1,
                  mode = GPIO_MODE_DISABLE,
                  pull_up_en = GPIO_PULLUP_DISABLE,
                  pull_down_en = GPIO_PULLDOWN_DISABLE,
                  intr_type = GPIO_INTR_DISABLE\<rparr>
        in Some (gpio_config io w))"

subsection \<open>Vtable methods\<close>

text \<open>
  The payload is \<open>None\<close> for a null pointer and \<open>Some bs\<close> for a pointer to the bytes
  \<open>bs\<close>; \<open>n\<close> is the \<open>size_t\<close> count passed beside it. \<open>off\<close> never exceeds \<open>n\<close> and
  \<open>blk * 8\<close> is at most 8192, so no arithmetic of the loops wraps.
\<close>

function spi_send_cmd_loop ::
  "uintptr_t \<Rightarrow> uint8_t list \<Rightarrow> nat \<Rightarrow> nat \<Rightarrow> world \<Rightarrow> (esp_err_t \<times> world) option" where
  "spi_send_cmd_loop ctx cmds n off w =
     (if off < n then
        let blk = (if n - off > 32 then 32 else n - off) in
        if length cmds < off + blk then None
        else case heap w ctx of
          None \<Rightarrow> None
        | Some c \<Rightarrow>
            let t = \<lparr>t_length = of_nat (blk * 8),
                     tx_buffer = take blk (drop off cmds),
                     user = pack_user ctx 0\<rparr>;
                r = spi_device_polling_transmit (dev c) t w
            in if fst r \<noteq> ESP_OK then Some r
               else spi_send_cmd_loop ctx cmds n (off + blk) (snd r)
      else Some (ESP_OK, w))"
  by pat_completeness auto
termination
  by (relation "measure (\<lambda>(ctx, cmds, n, off, w). n - off)") auto

definition spi_send_cmd ::
  "uintptr_t \<Rightarrow> uint8_t list option \<Rightarrow> nat \<Rightarrow> world \<Rightarrow> (esp_err_t \<times> world) option" where
  "spi_send_cmd ctx cmds n w =
     (if ctx = NULL then Some (ESP_OK, w)
      else case cmds of
        None \<Rightarrow> Some (ESP_OK, w)
      | Some bs \<Rightarrow>
          if n = 0 then Some (ESP_OK, w)
          else spi_send_cmd_loop ctx bs n 0 w)"

function spi_send_data_loop ::
  "uintptr_t \<Rightarrow> uint8_t list \<Rightarrow> nat \<Rightarrow> nat \<Rightarrow> world \<Rightarrow> (esp_err_t \<times> world) option" where
  "spi_send_data_loop ctx data n off w =
     (if off < n then
        let blk = (if n - off > 1024 then 1024 else n - off) in
        if length data < off + blk then None
        else case heap w ctx of
          None \<Rightarrow> None
        | Some c \<Rightarrow>
            let t = \<lparr>t_length = of_nat (blk * 8),
                     tx_buffer = take blk (drop off data),
                     user = pack_user ctx 1\<rparr>;
                r = spi_device_polling_transmit (dev c) t w
            in if fst r \<noteq> ESP_OK then Some r
               else spi_send_data_loop ctx data n (off + blk) (snd r)
      else Some (ESP_OK, w))"
  by pat_completeness auto
termination
  by (relation "measure (\<lambda>(ctx, data, n, off, w). n - off)") auto

definition spi_send_data ::
  "uintptr_t \<Rightarrow> uint8_t list option \<Rightarrow> nat \<Rightarrow> world \<Rightarrow> (esp_err_t \<times> world) option" where
  "spi_send_data ctx data n w =
     (if ctx = NULL then Some (ESP_OK, w)
      else case data of
        None \<Rightarrow> Some (ESP_OK, w)
      | Some bs \<Rightarrow>
          if n = 0 then Some (ESP_OK, w)
          else spi_send_data_loop ctx bs n 0 w)"

definition spi_reset :: "uintptr_t \<Rightarrow> world \<Rightarrow> (esp_err_t \<times> world) option" where
  "spi_reset ctx w =
     (if ctx = NULL then Some (ESP_OK, w)
      else case heap w ctx of
        None \<Rightarrow> None
      | Some c \<Rightarrow>
          if rst_gpio c = GPIO_NUM_NC then Some (ESP_OK, w)
          else
            let w1 = gpio_set_level (rst_gpio c) 0 w;
                w2 = vTaskDelay (pdMS_TO_TICKS w1 10) w1;
                w3 = gpio_set_level (rst_gpio c) 1 w2;
                w4 = vTaskDelay (pdMS_TO_TICKS w3 10) w3
            in Some (ESP_OK, w4))"

subsection \<open>The vtable and the device handle\<close>

text \<open>
  Modelled from the spec: the type \<open>ssd1306_bus_vt_t\<close> is declared in
  ssd1306\_private.h, which is not among the sources. Its three members are those the
  initialiser of \<open>VT_SPI\<close> names, with the signatures of the functions stored in them:
  send-command, send-data and reset, each returning a status.
\<close>

record ssd1306_bus_vt_t =
  send_cmd :: "uintptr_t \<Rightarrow> uint8_t list option \<Rightarrow> nat \<Rightarrow> world \<Rightarrow> (esp_err_t \<times> world) option"
  send_data :: "uintptr_t \<Rightarrow> uint8_t list option \<Rightarrow> nat \<Rightarrow> world \<Rightarrow> (esp_err_t \<times> world) option"
  reset :: "uintptr_t \<Rightarrow> world \<Rightarrow> (esp_err_t \<times> world) option"

definition VT_SPI :: ssd1306_bus_vt_t where
  "VT_SPI = \<lparr>send_cmd = spi_send_cmd, send_data = spi_send_data, reset = spi_reset\<rparr>"

text \<open>
  Modelled from the spec: \<open>struct ssd1306_t\<close> is declared in ssd1306\_private.h, which is
  not among the sources. Of the device handle's fields (dimensions, framebuffer, lock,
  transport vtable reference, opaque backend context) this file reads and writes only
  \<open>vt\<close> and \<open>bus_ctx\<close>; the functions below take the record with any extension, so the
  other fields are carried along unchanged. \<open>vt = None\<close> is the null vtable pointer.
\<close>

record ssd1306_t =
  vt :: "ssd1306_bus_vt_t option"
  bus_ctx :: uintptr_t

subsection \<open>Binding and unbinding\<close>

text \<open>A handle argument of \<open>None\<close> is the null pointer; the result carries the handle
  as the call leaves it, and the log has an entry for each store into it, in program
  order.\<close>

definition ssd1306_bind_spi ::
  "'a ssd1306_t_scheme option \<Rightarrow> spi_host_device_t \<Rightarrow> gpio_num_t \<Rightarrow> gpio_num_t \<Rightarrow> gpio_num_t
    \<Rightarrow> int \<Rightarrow> world \<Rightarrow> (esp_err_t \<times> 'a ssd1306_t_scheme option \<times> world) option" where
  "ssd1306_bind_spi d hst cs_gpio dc rst clk w =
     (case d of
        None \<Rightarrow> Some (ESP_ERR_INVALID_ARG, d, w)
      | Some h \<Rightarrow>
          if dc = GPIO_NUM_NC then Some (ESP_ERR_INVALID_ARG, d, w)
          else
            let clk1 = (if clk \<le> 0 then 8 * 1000 * 1000 else clk) in
            (case gpio_conf_output dc 0 w of
              None \<Rightarrow> None
            | Some w1 \<Rightarrow>
            (case gpio_conf_output rst 1 w1 of
              None \<Rightarrow> None
            | Some w2 \<Rightarrow>
                let devcfg = \<lparr>clock_speed_hz = clk1,
                              spi_mode = 0,
                              spics_io_num = cs_gpio,
                              queue_size = 2,
                              pre_cb = SPI_PRE_CB_SET_DC,
                              flags = 0\<rparr>;
                    (e, dv, w3) = spi_bus_add_device hst devcfg w2
                in if e \<noteq> ESP_OK then Some (e, d, w3)
                   else
                     let (ctx, w4) = calloc_ctx w3 in
                     if ctx = NULL then
                       let (e1, w5) = spi_bus_remove_device dv w4
                       in Some (ESP_ERR_NO_MEM, d, w5)
                     else
                       let w5 = w4\<lparr>heap := (heap w4)(ctx \<mapsto>
                                  \<lparr>dev = dv, host = hst, dc_gpio = dc,
                                   rst_gpio = rst, clk_hz = clk1\<rparr>)\<rparr>;
                           w6 = (if rst \<noteq> GPIO_NUM_NC then
                                   let a1 = gpio_set_level rst 1 w5;
                                       a2 = vTaskDelay (pdMS_TO_TICKS a1 1) a1;
                                       a3 = gpio_set_level rst 0 a2;
                                       a4 = vTaskDelay (pdMS_TO_TICKS a3 1) a3;
                                       a5 = gpio_set_level rst 1 a4
                                   in vTaskDelay (pdMS_TO_TICKS a5 5) a5
                                 else w5);
                           w7 = store_vt VT_SPI_ADDR w6;
                           w8 = store_bus_ctx ctx w7
                       in Some (ESP_OK, Some (h\<lparr>vt := Some VT_SPI, bus_ctx := ctx\<rparr>), w8))))"

definition ssd1306_unbind_spi ::
  "'a ssd1306_t_scheme option \<Rightarrow> world \<Rightarrow> (esp_err_t \<times> 'a ssd1306_t_scheme option \<times> world) option" where
  "ssd1306_unbind_spi d w =
     (case d of
        None \<Rightarrow> Some (ESP_OK, d, w)
      | Some h \<Rightarrow>
          if bus_ctx h = NULL then Some (ESP_OK, d, w)
          else (case heap w (bus_ctx h) of
            None \<Rightarrow> None
          | Some c \<Rightarrow>
              let (ret, w1) =
                    (if dev c \<noteq> NULL then
                       let (e, w0) = spi_bus_remove_device (dev c) w
                       in (if e \<noteq> ESP_OK then e else ESP_OK,
                           w0\<lparr>heap := (heap w0)(bus_ctx h \<mapsto> c\<lparr>dev := NULL\<rparr>)\<rparr>)
                     else (ESP_OK, w))
              in (case gpio_conf_disable (dc_gpio c) w1 of
                   None \<Rightarrow> None
                 | Some w2 \<Rightarrow>
                 (case gpio_conf_disable (rst_gpio c) w2 of
                   None \<Rightarrow> None
                 | Some w3 \<Rightarrow>
                     let w4 = free_ctx (bus_ctx h) w3;
                         w5 = store_bus_ctx NULL w4;
                         w6 = store_vt VT_NULL w5
                     in Some (ret, Some (h\<lparr>bus_ctx := NULL, vt := None\<rparr>), w6)))))"

section \<open>Vocabulary of the statements\<close>

text \<open>
  The definitions of this section are not part of the source. They name what the
  theorems talk about: which pins the GPIO helpers accept, the log entries a helper
  leaves, the transaction that carries one chunk, and runs of calls on one handle.
\<close>

definition pin_ok :: "gpio_num_t \<Rightarrow> bool" where
  "pin_ok pin = (pin = GPIO_NUM_NC \<or> (0 \<le> pin \<and> pin < 64))"

definition conf_output_events :: "gpio_num_t \<Rightarrow> uint32_t \<Rightarrow> event list" where
  "conf_output_events pin level =
     (if pin = GPIO_NUM_NC then []
      else [Gpio_config \<lparr>pin_bit_mask = push_bit (nat pin) 1,
                         mode = GPIO_MODE_OUTPUT,
                         pull_up_en = GPIO_PULLUP_DISABLE,
                         pull_down_en = GPIO_PULLDOWN_DISABLE,
                         intr_type = GPIO_INTR_DISABLE\<rparr>,
            Gpio_set_level pin level])"

definition conf_disable_events :: "gpio_num_t \<Rightarrow> event list" where
  "conf_disable_events pin =
     (if pin = GPIO_NUM_NC then []
      else [Gpio_config \<lparr>pin_bit_mask = push_bit (nat pin) 1,
                         mode = GPIO_MODE_DISABLE,
                         pull_up_en = GPIO_PULLUP_DISABLE,
                         pull_down_en = GPIO_PULLDOWN_DISABLE,
                         intr_type = GPIO_INTR_DISABLE\<rparr>])"

text \<open>The device configuration that \<open>ssd1306_bind_spi\<close> registers, for a clock and a
  chip-select pin.\<close>

definition bind_devcfg :: "int \<Rightarrow> gpio_num_t \<Rightarrow> spi_device_interface_config_t" where
  "bind_devcfg clk cs_gpio =
     \<lparr>clock_speed_hz = clk, spi_mode = 0, spics_io_num = cs_gpio,
      queue_size = 2, pre_cb = SPI_PRE_CB_SET_DC, flags = 0\<rparr>"

text \<open>The transaction that carries the bytes \<open>b\<close> for the context at \<open>ctx\<close> with D/C bit
  \<open>dc\<close>.\<close>

definition chunk_txn :: "uintptr_t \<Rightarrow> c_int \<Rightarrow> uint8_t list \<Rightarrow> spi_transaction_t" where
  "chunk_txn ctx dc b =
     \<lparr>t_length = of_nat (length b * 8), tx_buffer = b, user = pack_user ctx dc\<rparr>"

text \<open>Specification side: a list cut into consecutive pieces of \<open>m\<close> elements, the last
  one shorter when the length is not a multiple of \<open>m\<close>.\<close>

function chunks_of :: "nat \<Rightarrow> 'a list \<Rightarrow> 'a list list" where
  "chunks_of m xs =
     (if m = 0 \<or> xs = [] then [] else take m xs # chunks_of m (drop m xs))"
  by pat_completeness auto
termination
  by (relation "measure (\<lambda>(m, xs). length xs)") auto

text \<open>Specification side: transactions sent one after the other, stopping at the first
  one that fails with the code it gave.\<close>

fun transmit_all ::
  "spi_device_handle_t \<Rightarrow> spi_transaction_t list \<Rightarrow> world \<Rightarrow> esp_err_t \<times> world" where
  "transmit_all dv [] w = (ESP_OK, w)"
| "transmit_all dv (t # ts) w =
     (let r = spi_device_polling_transmit dv t w
      in if fst r \<noteq> ESP_OK then r else transmit_all dv ts (snd r))"

text \<open>A run of bind and unbind calls on one handle pointer; the status each call
  returns is dropped, as a caller that ignores errors would.\<close>

datatype spi_call =
    Bind_spi spi_host_device_t gpio_num_t gpio_num_t gpio_num_t int
  | Unbind_spi

fun run_calls ::
  "spi_call list \<Rightarrow> 'a ssd1306_t_scheme option \<Rightarrow> world
    \<Rightarrow> ('a ssd1306_t_scheme option \<times> world) option" where
  "run_calls [] d w = Some (d, w)"
| "run_calls (Bind_spi hst cs_gpio dc rst clk # calls) d w =
     (case ssd1306_bind_spi d hst cs_gpio dc rst clk w of
        None \<Rightarrow> None
      | Some (e, d1, w1) \<Rightarrow> run_calls calls d1 w1)"
| "run_calls (Unbind_spi # calls) d w =
     (case ssd1306_unbind_spi d w of
        None \<Rightarrow> None
      | Some (e, d1, w1) \<Rightarrow> run_calls calls d1 w1)"

fun call_ok :: "spi_call \<Rightarrow> bool" where
  "call_ok (Bind_spi hst cs_gpio dc rst clk) = (pin_ok dc \<and> pin_ok rst)"
| "call_ok Unbind_spi = True"

text \<open>The devices that the \<open>spi_bus_remove_device\<close> calls of a log name, in order.\<close>

fun removed_devices :: "event list \<Rightarrow> spi_device_handle_t list" where
  "removed_devices [] = []"
| "removed_devices (Spi_bus_remove_device dv # es) = dv # removed_devices es"
| "removed_devices (e # es) = removed_devices es"

text \<open>Bound or unbound, never half: the vtable pointer is null exactly when the
  context pointer is.\<close>

definition bound_or_unbound :: "'a ssd1306_t_scheme option \<Rightarrow> bool" where
  "bound_or_unbound d =
     (case d of None \<Rightarrow> True | Some h \<Rightarrow> (vt h = None) = (bus_ctx h = NULL))"

text \<open>The context a handle points at is live and holds pins the helpers accept.\<close>

definition ctx_live :: "'a ssd1306_t_scheme option \<Rightarrow> world \<Rightarrow> bool" where
  "ctx_live d w =
     (case d of
        None \<Rightarrow> True
      | Some h \<Rightarrow>
          if bus_ctx h = NULL then True
          else (case heap w (bus_ctx h) of
                  None \<Rightarrow> False
                | Some c \<Rightarrow> pin_ok (dc_gpio c) \<and> pin_ok (rst_gpio c)))"

subsection \<open>Concrete inputs\<close>

definition example_world :: world where
  "example_world =
     \<lparr>events = [], heap = (\<lambda>p. None),
      configTICK_RATE_HZ = 1000,
      add_device_ret = (\<lambda>k. (ESP_OK, 0x3FFC0000)),
      remove_device_ret = (\<lambda>k. ESP_OK),
      transmit_ret = (\<lambda>k. ESP_OK),
      calloc_ret = (\<lambda>k. 0x3FFB0010)\<rparr>"

definition example_ctx :: ssd1306_spi_ctx_t where
  "example_ctx =
     \<lparr>dev = 0x3FFC0000, host = 1, dc_gpio = 4, rst_gpio = 16, clk_hz = 8000000\<rparr>"

text \<open>A world in which the context at 0x3FFB0010 is live.\<close>

definition bound_world :: world where
  "bound_world = example_world\<lparr>heap := (\<lambda>p. if p = 0x3FFB0010 then Some example_ctx else None)\<rparr>"

text \<open>A world in which the allocator has no memory left.\<close>

definition nomem_world :: world where
  "nomem_world = example_world\<lparr>calloc_ret := (\<lambda>k. NULL)\<rparr>"

text \<open>A world in which the second transaction fails with \<open>ESP_ERR_TIMEOUT\<close> (0x107).\<close>

definition flaky_world :: world where
  "flaky_world = bound_world\<lparr>transmit_ret := (\<lambda>k. if k = 1 then 0x107 else ESP_OK)\<rparr>"

text \<open>The same worlds with the tick rate of the ESP-IDF default configuration (100 Hz)
  and with a slower tick (50 Hz).\<close>

definition default_tick_world :: world where
  "default_tick_world = example_world\<lparr>configTICK_RATE_HZ := 100\<rparr>"

definition slow_tick_world :: world where
  "slow_tick_world = bound_world\<lparr>configTICK_RATE_HZ := 50\<rparr>"

definition unbound_handle :: ssd1306_t where
  "unbound_handle = \<lparr>vt = None, bus_ctx = NULL\<rparr>"

definition bound_handle :: ssd1306_t where
  "bound_handle = \<lparr>vt = Some VT_SPI, bus_ctx = 0x3FFB0010\<rparr>"

section \<open>Verification\<close>

subsection \<open>Packing the context and the D/C bit\<close>

lemma lsb_clear: "(c::uintptr_t) AND 1 = 0 \<Longrightarrow> \<not> bit c 0"
  by (simp add: and_one_eq bit_0 odd_iff_mod_2_eq_one)

lemma unpack_ctx_pack_user:
  assumes "c AND 1 = 0"
  shows "unpack_ctx (pack_user c dc) = c"
proof (rule bit_eqI)
  fix n
  assume "possible_bit TYPE(uintptr_t) n"
  moreover from assms have "\<not> bit c 0" by (rule lsb_clear)
  ultimately show "bit (unpack_ctx (pack_user c dc)) n = bit c n"
    by (cases "n = 0") (auto simp add: unpack_ctx_def pack_user_def bit_simps)
qed

lemma unpack_dc_pack_user:
  assumes "c AND 1 = 0"
  shows "unpack_dc (pack_user c dc) = dc AND 1"
proof (rule bit_eqI)
  fix n
  assume "possible_bit TYPE(c_int) n"
  moreover from assms have "\<not> bit c 0" by (rule lsb_clear)
  ultimately show "bit (unpack_dc (pack_user c dc)) n = bit (dc AND 1) n"
    by (auto simp add: unpack_dc_def pack_user_def bit_simps)
qed

text \<open>
  Claim C9. For every context address whose least-significant bit is clear and every
  \<open>dc_bit\<close>, unpacking the packed user pointer gives back the address and \<open>dc_bit & 1\<close>;
  so the pre-transfer callback, run on a transaction carrying the packed pointer, reads
  the context at that very address and drives its D/C pin to \<open>dc_bit & 1\<close>.
\<close>

theorem pack_user_roundtrip:
  assumes "c AND 1 = 0"
  shows "unpack_ctx (pack_user c dc) = c
       \<and> unpack_dc (pack_user c dc) = dc AND 1
       \<and> spi_pre_cb_set_dc (t\<lparr>user := pack_user c dc\<rparr>) w =
           (case heap w c of
              None \<Rightarrow> None
            | Some cv \<Rightarrow>
                if dc_gpio cv \<noteq> GPIO_NUM_NC
                then Some (gpio_set_level (dc_gpio cv) (dc AND 1) w)
                else Some w)"
  using unpack_ctx_pack_user [OF assms, of dc] unpack_dc_pack_user [OF assms, of dc]
  by (simp add: spi_pre_cb_set_dc_def split: option.split)

theorem pack_user_roundtrip_witness:
  "(0x3FFB0010 :: uintptr_t) AND 1 = 0
   \<and> unpack_ctx (pack_user 0x3FFB0010 1) = 0x3FFB0010
   \<and> unpack_dc (pack_user 0x3FFB0010 1) = 1"
proof -
  have h: "(0x3FFB0010 :: uintptr_t) AND 1 = 0" by simp
  show ?thesis using h pack_user_roundtrip [OF h, of 1] by simp
qed

subsection \<open>Platform calls and GPIO helpers\<close>

lemmas platform_defs =
  log_event_def gpio_config_def gpio_set_level_def vTaskDelay_def pdMS_TO_TICKS_def
  store_vt_def store_bus_ctx_def
  spi_bus_add_device_def spi_bus_remove_device_def spi_device_polling_transmit_def
  calloc_ctx_def free_ctx_def

lemma gpio_conf_output_ok:
  "pin_ok pin \<Longrightarrow>
   gpio_conf_output pin level w = Some (w\<lparr>events := events w @ conf_output_events pin level\<rparr>)"
  by (auto simp add: pin_ok_def gpio_conf_output_def conf_output_events_def platform_defs)

lemma gpio_conf_disable_ok:
  "pin_ok pin \<Longrightarrow>
   gpio_conf_disable pin w = Some (w\<lparr>events := events w @ conf_disable_events pin\<rparr>)"
  by (auto simp add: pin_ok_def gpio_conf_disable_def conf_disable_events_def platform_defs)

lemma removed_devices_append [simp]:
  "removed_devices (xs @ ys) = removed_devices xs @ removed_devices ys"
  by (induction xs rule: removed_devices.induct) simp_all

lemma removed_devices_conf_disable [simp]: "removed_devices (conf_disable_events pin) = []"
  by (simp add: conf_disable_events_def)

lemma pin_ok_4 [simp]: "pin_ok 4"
  by (simp add: pin_ok_def)

lemma pin_ok_16 [simp]: "pin_ok 16"
  by (simp add: pin_ok_def)

lemma pin_ok_NC [simp]: "pin_ok GPIO_NUM_NC"
  by (simp add: pin_ok_def)

lemmas example_defs =
  example_world_def example_ctx_def bound_world_def nomem_world_def flaky_world_def
  default_tick_world_def slow_tick_world_def
  unbound_handle_def bound_handle_def NULL_def GPIO_NUM_NC_def ESP_OK_def

subsection \<open>Sending in chunks\<close>

declare spi_send_cmd_loop.simps [simp del]
declare spi_send_data_loop.simps [simp del]

lemma chunks_of_Nil [simp]: "chunks_of m [] = []"
  by simp

lemma chunks_of_step:
  "0 < m \<Longrightarrow> xs \<noteq> [] \<Longrightarrow> chunks_of m xs = take m xs # chunks_of m (drop m xs)"
  by simp

declare chunks_of.simps [simp del]

lemma concat_chunks_of: "0 < m \<Longrightarrow> concat (chunks_of m xs) = xs"
proof (induction m xs rule: chunks_of.induct)
  case (1 m xs)
  show ?case
  proof (cases "xs = []")
    case True
    then show ?thesis by simp
  next
    case False
    with "1.prems" have "chunks_of m xs = take m xs # chunks_of m (drop m xs)"
      by (simp add: chunks_of_step)
    moreover from False "1.prems" have "concat (chunks_of m (drop m xs)) = drop m xs"
      by (intro "1.IH") simp_all
    ultimately show ?thesis by simp
  qed
qed

lemma chunk_sizes: "b \<in> set (chunks_of m xs) \<Longrightarrow> 0 < length b \<and> length b \<le> m"
proof (induction m xs rule: chunks_of.induct)
  case (1 m xs)
  show ?case
  proof (cases "m = 0 \<or> xs = []")
    case True
    with "1.prems" show ?thesis by (auto simp add: chunks_of.simps)
  next
    case False
    then have step: "chunks_of m xs = take m xs # chunks_of m (drop m xs)"
      by (simp add: chunks_of_step)
    show ?thesis
    proof (cases "b = take m xs")
      case True
      with False show ?thesis by simp
    next
      case other: False
      with step "1.prems" have "b \<in> set (chunks_of m (drop m xs))" by simp
      with False show ?thesis by (intro "1.IH") simp_all
    qed
  qed
qed

lemma transmit_all_heap: "heap (snd (transmit_all dv ts w)) = heap w"
  by (induction ts arbitrary: w) (simp_all add: Let_def platform_defs)

lemma transmit_all_run:
  "\<exists>k \<le> length ts.
     events (snd (transmit_all dv ts w)) =
       events w @ map (Spi_device_polling_transmit dv) (take k ts)
   \<and> ((\<forall>j < k. transmit_ret w j = ESP_OK) \<longrightarrow>
        fst (transmit_all dv ts w) = ESP_OK \<and> k = length ts)
   \<and> (\<forall>j < k. transmit_ret w j \<noteq> ESP_OK \<longrightarrow>
        fst (transmit_all dv ts w) = transmit_ret w j \<and> k = Suc j)"
proof (induction ts arbitrary: w)
  case Nil
  show ?case by simp
next
  case (Cons t ts)
  let ?w1 = "snd (spi_device_polling_transmit dv t w)"
  have ev1: "events ?w1 = events w @ [Spi_device_polling_transmit dv t]"
    and ret1: "\<And>j. transmit_ret ?w1 j = transmit_ret w (Suc j)"
    and fst1: "fst (spi_device_polling_transmit dv t w) = transmit_ret w 0"
    by (simp_all add: platform_defs)
  show ?case
  proof (cases "transmit_ret w 0 = ESP_OK")
    case False
    with ev1 fst1 have
      "events (snd (transmit_all dv (t # ts) w)) =
         events w @ map (Spi_device_polling_transmit dv) (take 1 (t # ts))"
      "fst (transmit_all dv (t # ts) w) = transmit_ret w 0"
      by (simp_all add: Let_def)
    with False show ?thesis
      by (intro exI [of _ 1]) simp
  next
    case True
    from Cons.IH [of ?w1] obtain k where k: "k \<le> length ts"
      and ev: "events (snd (transmit_all dv ts ?w1)) =
                 events ?w1 @ map (Spi_device_polling_transmit dv) (take k ts)"
      and ok: "(\<forall>j < k. transmit_ret ?w1 j = ESP_OK) \<longrightarrow>
                 fst (transmit_all dv ts ?w1) = ESP_OK \<and> k = length ts"
      and bad: "\<forall>j < k. transmit_ret ?w1 j \<noteq> ESP_OK \<longrightarrow>
                 fst (transmit_all dv ts ?w1) = transmit_ret ?w1 j \<and> k = Suc j"
      by blast
    from True fst1 have unf: "transmit_all dv (t # ts) w = transmit_all dv ts ?w1"
      by (simp add: Let_def)
    have "Suc k \<le> length (t # ts)" using k by simp
    moreover have "events (snd (transmit_all dv (t # ts) w)) =
        events w @ map (Spi_device_polling_transmit dv) (take (Suc k) (t # ts))"
      using ev ev1 unf by simp
    moreover have "(\<forall>j < Suc k. transmit_ret w j = ESP_OK) \<longrightarrow>
        fst (transmit_all dv (t # ts) w) = ESP_OK \<and> Suc k = length (t # ts)"
      using ok ret1 unf by auto
    moreover have "\<forall>j < Suc k. transmit_ret w j \<noteq> ESP_OK \<longrightarrow>
        fst (transmit_all dv (t # ts) w) = transmit_ret w j \<and> Suc k = Suc j"
    proof (intro allI impI)
      fix j assume j: "j < Suc k" and nz: "transmit_ret w j \<noteq> ESP_OK"
      with True obtain i where i: "j = Suc i" by (cases j) auto
      with j nz ret1 have "i < k" "transmit_ret ?w1 i \<noteq> ESP_OK" by simp_all
      with bad have "fst (transmit_all dv ts ?w1) = transmit_ret ?w1 i \<and> k = Suc i" by blast
      with unf i ret1 show "fst (transmit_all dv (t # ts) w) = transmit_ret w j \<and> Suc k = Suc j"
        by simp
    qed
    ultimately show ?thesis by blast
  qed
qed

lemma spi_send_data_loop_chunks:
  assumes "heap w ctx = Some c" and "n \<le> length data"
  shows "spi_send_data_loop ctx data n off w =
           Some (transmit_all (dev c)
                   (map (chunk_txn ctx 1) (chunks_of 1024 (take (n - off) (drop off data)))) w)"
  using assms
proof (induction ctx data n off w rule: spi_send_data_loop.induct)
  case (1 ctx data n off w)
  show ?case
  proof (cases "off < n")
    case False
    then show ?thesis by (subst spi_send_data_loop.simps) simp
  next
    case True
    define blk where "blk = (if n - off > 1024 then 1024 else n - off)"
    define t where "t = \<lparr>t_length = of_nat (blk * 8), tx_buffer = take blk (drop off data),
                          user = pack_user ctx 1\<rparr>"
    define r where "r = spi_device_polling_transmit (dev c) t w"
    have blk: "0 < blk" "blk \<le> 1024" "off + blk \<le> n" "blk = min 1024 (n - off)"
      using True by (auto simp add: blk_def)
    with "1.prems" have inb: "\<not> length data < off + blk" by simp
    have len: "length (take blk (drop off data)) = blk"
      using blk "1.prems" by simp
    have ne: "take (n - off) (drop off data) \<noteq> []"
      using True "1.prems" by simp
    have hd_chunk: "take 1024 (take (n - off) (drop off data)) = take blk (drop off data)"
      using blk by (simp add: min.commute)
    have tl_chunk: "drop 1024 (take (n - off) (drop off data))
                      = take (n - (off + blk)) (drop (off + blk) data)"
    proof (cases "1024 < n - off")
      case big: True
      then have "blk = 1024" by (simp add: blk_def)
      with big show ?thesis by (simp add: drop_take add.commute)
    next
      case small: False
      then have "blk = n - off" by (simp add: blk_def)
      with small True show ?thesis by simp
    qed
    have chunks: "chunks_of 1024 (take (n - off) (drop off data))
        = take blk (drop off data) # chunks_of 1024 (take (n - (off + blk)) (drop (off + blk) data))"
      using ne hd_chunk tl_chunk by (simp add: chunks_of_step)
    have txn: "chunk_txn ctx 1 (take blk (drop off data)) = t"
      using len by (simp add: chunk_txn_def t_def)
    have unf: "spi_send_data_loop ctx data n off w =
        (if fst r \<noteq> ESP_OK then Some r
         else spi_send_data_loop ctx data n (off + blk) (snd r))"
      using True inb "1.prems"(1)
      by (subst spi_send_data_loop.simps) (simp add: Let_def blk_def t_def r_def)
    show ?thesis
    proof (cases "fst r = ESP_OK")
      case False
      with unf chunks txn show ?thesis by (simp add: Let_def r_def)
    next
      case ok: True
      have hp: "heap (snd r) ctx = Some c"
        using "1.prems"(1) by (simp add: r_def platform_defs)
      have "spi_send_data_loop ctx data n (off + blk) (snd r) =
            Some (transmit_all (dev c)
               (map (chunk_txn ctx 1)
                  (chunks_of 1024 (take (n - (off + blk)) (drop (off + blk) data)))) (snd r))"
        using "1.IH" [OF True blk_def inb "1.prems"(1) t_def r_def _ hp "1.prems"(2)] ok
        by simp
      with unf ok chunks txn show ?thesis by (simp add: Let_def r_def)
    qed
  qed
qed

lemma spi_send_cmd_loop_chunks:
  assumes "heap w ctx = Some c" and "n \<le> length cmds"
  shows "spi_send_cmd_loop ctx cmds n off w =
           Some (transmit_all (dev c)
                   (map (chunk_txn ctx 0) (chunks_of 32 (take (n - off) (drop off cmds)))) w)"
  using assms
proof (induction ctx cmds n off w rule: spi_send_cmd_loop.induct)
  case (1 ctx cmds n off w)
  show ?case
  proof (cases "off < n")
    case False
    then show ?thesis by (subst spi_send_cmd_loop.simps) simp
  next
    case True
    define blk where "blk = (if n - off > 32 then 32 else n - off)"
    define t where "t = \<lparr>t_length = of_nat (blk * 8), tx_buffer = take blk (drop off cmds),
                          user = pack_user ctx 0\<rparr>"
    define r where "r = spi_device_polling_transmit (dev c) t w"
    have blk: "0 < blk" "blk \<le> 32" "off + blk \<le> n" "blk = min 32 (n - off)"
      using True by (auto simp add: blk_def)
    with "1.prems" have inb: "\<not> length cmds < off + blk" by simp
    have len: "length (take blk (drop off cmds)) = blk"
      using blk "1.prems" by simp
    have ne: "take (n - off) (drop off cmds) \<noteq> []"
      using True "1.prems" by simp
    have hd_chunk: "take 32 (take (n - off) (drop off cmds)) = take blk (drop off cmds)"
      using blk by (simp add: min.commute)
    have tl_chunk: "drop 32 (take (n - off) (drop off cmds))
                      = take (n - (off + blk)) (drop (off + blk) cmds)"
    proof (cases "32 < n - off")
      case big: True
      then have "blk = 32" by (simp add: blk_def)
      with big show ?thesis by (simp add: drop_take add.commute)
    next
      case small: False
      then have "blk = n - off" by (simp add: blk_def)
      with small True show ?thesis by simp
    qed
    have chunks: "chunks_of 32 (take (n - off) (drop off cmds))
        = take blk (drop off cmds) # chunks_of 32 (take (n - (off + blk)) (drop (off + blk) cmds))"
      using ne hd_chunk tl_chunk by (simp add: chunks_of_step)
    have txn: "chunk_txn ctx 0 (take blk (drop off cmds)) = t"
      using len by (simp add: chunk_txn_def t_def)
    have unf: "spi_send_cmd_loop ctx cmds n off w =
        (if fst r \<noteq> ESP_OK then Some r
         else spi_send_cmd_loop ctx cmds n (off + blk) (snd r))"
      using True inb "1.prems"(1)
      by (subst spi_send_cmd_loop.simps) (simp add: Let_def blk_def t_def r_def)
    show ?thesis
    proof (cases "fst r = ESP_OK")
      case False
      with unf chunks txn show ?thesis by (simp add: Let_def r_def)
    next
      case ok: True
      have hp: "heap (snd r) ctx = Some c"
        using "1.prems"(1) by (simp add: r_def platform_defs)
      have "spi_send_cmd_loop ctx cmds n (off + blk) (snd r) =
            Some (transmit_all (dev c)
               (map (chunk_txn ctx 0)
                  (chunks_of 32 (take (n - (off + blk)) (drop (off + blk) cmds)))) (snd r))"
        using "1.IH" [OF True blk_def inb "1.prems"(1) t_def r_def _ hp "1.prems"(2)] ok
        by simp
      with unf ok chunks txn show ?thesis by (simp add: Let_def r_def)
    qed
  qed
qed


lemma transmit_chunks_summary:
  assumes "0 < m"
  shows "\<exists>sent.
      events (snd (transmit_all dv (map (chunk_txn ctx dc) (chunks_of m xs)) w)) =
        events w @ map (\<lambda>b. Spi_device_polling_transmit dv (chunk_txn ctx dc b)) sent
    \<and> (\<forall>b \<in> set sent. 0 < length b \<and> length b \<le> m)
    \<and> prefix (concat sent) xs
    \<and> sent = take (length sent) (chunks_of m xs)
    \<and> ((\<forall>j < length sent. transmit_ret w j = ESP_OK) \<longrightarrow>
         fst (transmit_all dv (map (chunk_txn ctx dc) (chunks_of m xs)) w) = ESP_OK
         \<and> concat sent = xs)
    \<and> (\<forall>j < length sent. transmit_ret w j \<noteq> ESP_OK \<longrightarrow>
         fst (transmit_all dv (map (chunk_txn ctx dc) (chunks_of m xs)) w) = transmit_ret w j
         \<and> length sent = Suc j)"
proof -
  let ?cs = "chunks_of m xs"
  let ?ts = "map (chunk_txn ctx dc) ?cs"
  from transmit_all_run [of ?ts dv w] obtain k where k: "k \<le> length ?cs"
    and ev: "events (snd (transmit_all dv ?ts w)) =
               events w @ map (Spi_device_polling_transmit dv) (take k ?ts)"
    and ok: "(\<forall>j < k. transmit_ret w j = ESP_OK) \<longrightarrow>
               fst (transmit_all dv ?ts w) = ESP_OK \<and> k = length ?ts"
    and bad: "\<forall>j < k. transmit_ret w j \<noteq> ESP_OK \<longrightarrow>
               fst (transmit_all dv ?ts w) = transmit_ret w j \<and> k = Suc j"
    by auto
  let ?sent = "take k ?cs"
  have len: "length ?sent = k" using k by simp
  have "events (snd (transmit_all dv ?ts w)) =
          events w @ map (\<lambda>b. Spi_device_polling_transmit dv (chunk_txn ctx dc b)) ?sent"
    using ev by (simp add: take_map)
  moreover have "\<forall>b \<in> set ?sent. 0 < length b \<and> length b \<le> m"
    using chunk_sizes [of _ m xs] by (auto dest: in_set_takeD)
  moreover have cat: "concat ?sent @ concat (drop k ?cs) = xs"
    using concat_chunks_of [OF assms, of xs] concat_append [of ?sent "drop k ?cs"] by simp
  then have "prefix (concat ?sent) xs"
    by (metis prefixI)
  moreover have "?sent = take (length ?sent) ?cs"
    using len by simp
  moreover have "(\<forall>j < length ?sent. transmit_ret w j = ESP_OK) \<longrightarrow>
       fst (transmit_all dv ?ts w) = ESP_OK \<and> concat ?sent = xs"
    using ok len concat_chunks_of [OF assms, of xs] by auto
  moreover have "\<forall>j < length ?sent. transmit_ret w j \<noteq> ESP_OK \<longrightarrow>
       fst (transmit_all dv ?ts w) = transmit_ret w j \<and> length ?sent = Suc j"
    using bad len by auto
  ultimately show ?thesis by blast
qed

lemma run_data:
  assumes "ctx \<noteq> NULL" and "heap w ctx = Some c" and "0 < n" and "n \<le> length bs"
  shows "spi_send_data ctx (Some bs) n w =
     Some (transmit_all (dev c) (map (chunk_txn ctx 1) (chunks_of 1024 (take n bs))) w)"
  using assms spi_send_data_loop_chunks [OF assms(2,4), of 0]
  by (simp add: spi_send_data_def)

lemma run_cmd:
  assumes "ctx \<noteq> NULL" and "heap w ctx = Some c" and "0 < n" and "n \<le> length bs"
  shows "spi_send_cmd ctx (Some bs) n w =
     Some (transmit_all (dev c) (map (chunk_txn ctx 0) (chunks_of 32 (take n bs))) w)"
  using assms spi_send_cmd_loop_chunks [OF assms(2,4), of 0]
  by (simp add: spi_send_cmd_def)

lemma chunked_summary_of_run:
  assumes "0 < m"
    and "res = Some (transmit_all dv (map (chunk_txn ctx dc) (chunks_of m xs)) w)"
  shows "\<exists>r w' sent.
            res = Some (r, w')
          \<and> events w' = events w
              @ map (\<lambda>b. Spi_device_polling_transmit dv (chunk_txn ctx dc b)) sent
          \<and> (\<forall>b \<in> set sent. 0 < length b \<and> length b \<le> m)
          \<and> prefix (concat sent) xs
          \<and> sent = take (length sent) (chunks_of m xs)
          \<and> ((\<forall>j < length sent. transmit_ret w j = ESP_OK) \<longrightarrow>
               r = ESP_OK \<and> concat sent = xs)
          \<and> (\<forall>j < length sent. transmit_ret w j \<noteq> ESP_OK \<longrightarrow>
               r = transmit_ret w j \<and> length sent = Suc j)"
proof -
  let ?run = "transmit_all dv (map (chunk_txn ctx dc) (chunks_of m xs)) w"
  from transmit_chunks_summary [OF assms(1), of dv ctx dc xs w] obtain sent where
    s: "events (snd ?run) = events w
          @ map (\<lambda>b. Spi_device_polling_transmit dv (chunk_txn ctx dc b)) sent"
      "\<forall>b \<in> set sent. 0 < length b \<and> length b \<le> m"
      "prefix (concat sent) xs"
      "sent = take (length sent) (chunks_of m xs)"
      "(\<forall>j < length sent. transmit_ret w j = ESP_OK) \<longrightarrow>
         fst ?run = ESP_OK \<and> concat sent = xs"
      "\<forall>j < length sent. transmit_ret w j \<noteq> ESP_OK \<longrightarrow>
         fst ?run = transmit_ret w j \<and> length sent = Suc j"
    by (elim exE conjE)
  have "res = Some (fst ?run, snd ?run)" using assms(2) by simp
  with s show ?thesis
    by (intro exI [of _ "fst ?run"] exI [of _ "snd ?run"] exI [of _ sent] conjI)
qed

lemma chunk_txn_decodes:
  assumes "ctx AND 1 = 0"
  shows "unpack_ctx (user (chunk_txn ctx 1 b)) = ctx"
    and "unpack_dc (user (chunk_txn ctx 1 b)) = 1"
    and "unpack_ctx (user (chunk_txn ctx 0 b)) = ctx"
    and "unpack_dc (user (chunk_txn ctx 0 b)) = 0"
  using unpack_ctx_pack_user [OF assms, of 1] unpack_dc_pack_user [OF assms, of 1]
    unpack_ctx_pack_user [OF assms, of 0] unpack_dc_pack_user [OF assms, of 0]
  by (simp_all add: chunk_txn_def)

lemma chunk_txn_callback:
  assumes "ctx AND 1 = 0" and "heap v ctx = Some c"
  shows "spi_pre_cb_set_dc (chunk_txn ctx 1 b) v =
           Some (if dc_gpio c = GPIO_NUM_NC then v else gpio_set_level (dc_gpio c) 1 v)"
    and "spi_pre_cb_set_dc (chunk_txn ctx 0 b) v =
           Some (if dc_gpio c = GPIO_NUM_NC then v else gpio_set_level (dc_gpio c) 0 v)"
  using assms chunk_txn_decodes [OF assms(1), of b]
  by (simp_all add: spi_pre_cb_set_dc_def)

text \<open>
  Claim C1. For a live context at an address with bit 0 clear (as every address of a
  context is) and a payload of \<open>n > 0\<close> bytes, \<open>spi_send_data\<close> and \<open>spi_send_cmd\<close> return
  a status and leave in the log, after what was there, one transaction per chunk
  \<open>sent\<close>, in order, each on the context's device. Every chunk has at least one and at
  most 1024 (data) or 32 (command) bytes; the chunks are the leading pieces of the
  payload cut every 1024 (32) bytes, so their concatenation is a prefix of the payload.
  When every transaction made succeeded, the status is \<open>ESP_OK\<close> and the concatenation is
  the whole payload. When transaction \<open>j\<close> failed, the status is the code it gave and it
  was the last transaction made. Every transaction is marked: its user pointer decodes
  to this context and to the D/C bit 1 for data and 0 for a command, so that the
  pre-transfer callback run on it drives the context's D/C pin to 1 for data and to 0
  for a command.
\<close>

theorem spi_send_chunked:
  assumes "ctx \<noteq> NULL" and "ctx AND 1 = 0" and "heap w ctx = Some c"
    and "0 < n" and "n \<le> length bs"
  shows "(\<exists>r w' sent.
            spi_send_data ctx (Some bs) n w = Some (r, w')
          \<and> events w' = events w
              @ map (\<lambda>b. Spi_device_polling_transmit (dev c) (chunk_txn ctx 1 b)) sent
          \<and> (\<forall>b \<in> set sent. 0 < length b \<and> length b \<le> 1024)
          \<and> prefix (concat sent) (take n bs)
          \<and> sent = take (length sent) (chunks_of 1024 (take n bs))
          \<and> ((\<forall>j < length sent. transmit_ret w j = ESP_OK) \<longrightarrow>
               r = ESP_OK \<and> concat sent = take n bs)
          \<and> (\<forall>j < length sent. transmit_ret w j \<noteq> ESP_OK \<longrightarrow>
               r = transmit_ret w j \<and> length sent = Suc j)
          \<and> (\<forall>b \<in> set sent.
                 tx_buffer (chunk_txn ctx 1 b) = b
               \<and> t_length (chunk_txn ctx 1 b) = of_nat (8 * length b)
               \<and> unpack_ctx (user (chunk_txn ctx 1 b)) = ctx
               \<and> unpack_dc (user (chunk_txn ctx 1 b)) = 1
               \<and> (\<forall>v. heap v ctx = Some c \<longrightarrow>
                     spi_pre_cb_set_dc (chunk_txn ctx 1 b) v =
                       Some (if dc_gpio c = GPIO_NUM_NC then v
                             else gpio_set_level (dc_gpio c) 1 v))))
       \<and> (\<exists>r w' sent.
            spi_send_cmd ctx (Some bs) n w = Some (r, w')
          \<and> events w' = events w
              @ map (\<lambda>b. Spi_device_polling_transmit (dev c) (chunk_txn ctx 0 b)) sent
          \<and> (\<forall>b \<in> set sent. 0 < length b \<and> length b \<le> 32)
          \<and> prefix (concat sent) (take n bs)
          \<and> sent = take (length sent) (chunks_of 32 (take n bs))
          \<and> ((\<forall>j < length sent. transmit_ret w j = ESP_OK) \<longrightarrow>
               r = ESP_OK \<and> concat sent = take n bs)
          \<and> (\<forall>j < length sent. transmit_ret w j \<noteq> ESP_OK \<longrightarrow>
               r = transmit_ret w j \<and> length sent = Suc j)
          \<and> (\<forall>b \<in> set sent.
                 tx_buffer (chunk_txn ctx 0 b) = b
               \<and> t_length (chunk_txn ctx 0 b) = of_nat (8 * length b)
               \<and> unpack_ctx (user (chunk_txn ctx 0 b)) = ctx
               \<and> unpack_dc (user (chunk_txn ctx 0 b)) = 0
               \<and> (\<forall>v. heap v ctx = Some c \<longrightarrow>
                     spi_pre_cb_set_dc (chunk_txn ctx 0 b) v =
                       Some (if dc_gpio c = GPIO_NUM_NC then v
                             else gpio_set_level (dc_gpio c) 0 v))))"
proof (rule conjI)
  note live = assms(1,3,4,5)
  have fields: "tx_buffer (chunk_txn ctx dc b) = b
      \<and> t_length (chunk_txn ctx dc b) = of_nat (8 * length b)" for dc b
    by (simp add: chunk_txn_def mult.commute)
  have pos: "(0 :: nat) < 1024" by simp
  from chunked_summary_of_run [OF pos run_data [OF live]]
  obtain r w' sent where
    s: "spi_send_data ctx (Some bs) n w = Some (r, w')"
      "events w' = events w
         @ map (\<lambda>b. Spi_device_polling_transmit (dev c) (chunk_txn ctx 1 b)) sent"
      "\<forall>b \<in> set sent. 0 < length b \<and> length b \<le> 1024"
      "prefix (concat sent) (take n bs)"
      "sent = take (length sent) (chunks_of 1024 (take n bs))"
      "(\<forall>j < length sent. transmit_ret w j = ESP_OK) \<longrightarrow>
         r = ESP_OK \<and> concat sent = take n bs"
      "\<forall>j < length sent. transmit_ret w j \<noteq> ESP_OK \<longrightarrow>
         r = transmit_ret w j \<and> length sent = Suc j"
    by (elim exE conjE)
  have m: "\<forall>b \<in> set sent.
        tx_buffer (chunk_txn ctx 1 b) = b
      \<and> t_length (chunk_txn ctx 1 b) = of_nat (8 * length b)
      \<and> unpack_ctx (user (chunk_txn ctx 1 b)) = ctx
      \<and> unpack_dc (user (chunk_txn ctx 1 b)) = 1
      \<and> (\<forall>v. heap v ctx = Some c \<longrightarrow>
            spi_pre_cb_set_dc (chunk_txn ctx 1 b) v =
              Some (if dc_gpio c = GPIO_NUM_NC then v else gpio_set_level (dc_gpio c) 1 v))"
    using fields [of 1] chunk_txn_decodes (1,2) [OF assms(2)] chunk_txn_callback (1) [OF assms(2)]
    by blast
  from s m show "\<exists>r w' sent.
            spi_send_data ctx (Some bs) n w = Some (r, w')
          \<and> events w' = events w
              @ map (\<lambda>b. Spi_device_polling_transmit (dev c) (chunk_txn ctx 1 b)) sent
          \<and> (\<forall>b \<in> set sent. 0 < length b \<and> length b \<le> 1024)
          \<and> prefix (concat sent) (take n bs)
          \<and> sent = take (length sent) (chunks_of 1024 (take n bs))
          \<and> ((\<forall>j < length sent. transmit_ret w j = ESP_OK) \<longrightarrow>
               r = ESP_OK \<and> concat sent = take n bs)
          \<and> (\<forall>j < length sent. transmit_ret w j \<noteq> ESP_OK \<longrightarrow>
               r = transmit_ret w j \<and> length sent = Suc j)
          \<and> (\<forall>b \<in> set sent.
                 tx_buffer (chunk_txn ctx 1 b) = b
               \<and> t_length (chunk_txn ctx 1 b) = of_nat (8 * length b)
               \<and> unpack_ctx (user (chunk_txn ctx 1 b)) = ctx
               \<and> unpack_dc (user (chunk_txn ctx 1 b)) = 1
               \<and> (\<forall>v. heap v ctx = Some c \<longrightarrow>
                     spi_pre_cb_set_dc (chunk_txn ctx 1 b) v =
                       Some (if dc_gpio c = GPIO_NUM_NC then v
                             else gpio_set_level (dc_gpio c) 1 v)))"
    by (intro exI [of _ r] exI [of _ w'] exI [of _ sent] conjI)
next
  note live = assms(1,3,4,5)
  have fields: "tx_buffer (chunk_txn ctx dc b) = b
      \<and> t_length (chunk_txn ctx dc b) = of_nat (8 * length b)" for dc b
    by (simp add: chunk_txn_def mult.commute)
  have pos: "(0 :: nat) < 32" by simp
  from chunked_summary_of_run [OF pos run_cmd [OF live]]
  obtain r w' sent where
    s: "spi_send_cmd ctx (Some bs) n w = Some (r, w')"
      "events w' = events w
         @ map (\<lambda>b. Spi_device_polling_transmit (dev c) (chunk_txn ctx 0 b)) sent"
      "\<forall>b \<in> set sent. 0 < length b \<and> length b \<le> 32"
      "prefix (concat sent) (take n bs)"
      "sent = take (length sent) (chunks_of 32 (take n bs))"
      "(\<forall>j < length sent. transmit_ret w j = ESP_OK) \<longrightarrow>
         r = ESP_OK \<and> concat sent = take n bs"
      "\<forall>j < length sent. transmit_ret w j \<noteq> ESP_OK \<longrightarrow>
         r = transmit_ret w j \<and> length sent = Suc j"
    by (elim exE conjE)
  have m: "\<forall>b \<in> set sent.
        tx_buffer (chunk_txn ctx 0 b) = b
      \<and> t_length (chunk_txn ctx 0 b) = of_nat (8 * length b)
      \<and> unpack_ctx (user (chunk_txn ctx 0 b)) = ctx
      \<and> unpack_dc (user (chunk_txn ctx 0 b)) = 0
      \<and> (\<forall>v. heap v ctx = Some c \<longrightarrow>
            spi_pre_cb_set_dc (chunk_txn ctx 0 b) v =
              Some (if dc_gpio c = GPIO_NUM_NC then v else gpio_set_level (dc_gpio c) 0 v))"
    using fields [of 0] chunk_txn_decodes (3,4) [OF assms(2)] chunk_txn_callback (2) [OF assms(2)]
    by blast
  from s m show "\<exists>r w' sent.
            spi_send_cmd ctx (Some bs) n w = Some (r, w')
          \<and> events w' = events w
              @ map (\<lambda>b. Spi_device_polling_transmit (dev c) (chunk_txn ctx 0 b)) sent
          \<and> (\<forall>b \<in> set sent. 0 < length b \<and> length b \<le> 32)
          \<and> prefix (concat sent) (take n bs)
          \<and> sent = take (length sent) (chunks_of 32 (take n bs))
          \<and> ((\<forall>j < length sent. transmit_ret w j = ESP_OK) \<longrightarrow>
               r = ESP_OK \<and> concat sent = take n bs)
          \<and> (\<forall>j < length sent. transmit_ret w j \<noteq> ESP_OK \<longrightarrow>
               r = transmit_ret w j \<and> length sent = Suc j)
          \<and> (\<forall>b \<in> set sent.
                 tx_buffer (chunk_txn ctx 0 b) = b
               \<and> t_length (chunk_txn ctx 0 b) = of_nat (8 * length b)
               \<and> unpack_ctx (user (chunk_txn ctx 0 b)) = ctx
               \<and> unpack_dc (user (chunk_txn ctx 0 b)) = 0
               \<and> (\<forall>v. heap v ctx = Some c \<longrightarrow>
                     spi_pre_cb_set_dc (chunk_txn ctx 0 b) v =
                       Some (if dc_gpio c = GPIO_NUM_NC then v
                             else gpio_set_level (dc_gpio c) 0 v)))"
    by (intro exI [of _ r] exI [of _ w'] exI [of _ sent] conjI)
qed

theorem spi_send_chunked_witness:
  "(0x3FFB0010 :: uintptr_t) \<noteq> NULL
   \<and> (0x3FFB0010 :: uintptr_t) AND 1 = 0
   \<and> heap flaky_world 0x3FFB0010 = Some example_ctx
   \<and> (0 :: nat) < 70
   \<and> (70 :: nat) \<le> length (replicate 70 (0xAE :: uint8_t))
   \<and> (\<exists>w'. spi_send_data 0x3FFB0010 (Some (replicate 70 0xAE)) 70 flaky_world = Some (ESP_OK, w')
          \<and> events w' =
              [Spi_device_polling_transmit 0x3FFC0000
                 (chunk_txn 0x3FFB0010 1 (replicate 70 0xAE))])
   \<and> unpack_dc (user (chunk_txn 0x3FFB0010 1 (replicate 70 0xAE))) = 1
   \<and> (\<exists>w'. spi_send_cmd 0x3FFB0010 (Some (replicate 70 0xAE)) 70 flaky_world = Some (0x107, w')
          \<and> events w' =
              [Spi_device_polling_transmit 0x3FFC0000
                 (chunk_txn 0x3FFB0010 0 (replicate 32 0xAE)),
               Spi_device_polling_transmit 0x3FFC0000
                 (chunk_txn 0x3FFB0010 0 (replicate 32 0xAE))])
   \<and> unpack_dc (user (chunk_txn 0x3FFB0010 0 (replicate 32 0xAE))) = 0"
proof -
  let ?bs = "replicate 70 (0xAE :: uint8_t)"
  let ?p = "0x3FFB0010 :: uintptr_t"
  have h1: "?p \<noteq> NULL" by (simp add: NULL_def)
  have h2: "?p AND 1 = 0" by simp
  have h3: "heap flaky_world ?p = Some example_ctx"
    by (simp add: flaky_world_def bound_world_def)
  have h4: "(0 :: nat) < 70" by simp
  have h5: "(70 :: nat) \<le> length ?bs" by simp
  have ev0: "events flaky_world = []"
    by (simp add: flaky_world_def bound_world_def example_world_def)
  have dv: "dev example_ctx = 0x3FFC0000" by (simp add: example_ctx_def)
  have ret: "transmit_ret flaky_world j = (if j = 1 then 0x107 else ESP_OK)" for j
    by (simp add: flaky_world_def)
  have big: "chunks_of 1024 (take 70 ?bs) = [?bs]"
    by (simp add: chunks_of_step)
  have small: "chunks_of 32 (take 70 ?bs) =
      [replicate 32 0xAE, replicate 32 0xAE, replicate 6 0xAE]"
    by (simp add: chunks_of_step)
  note main = spi_send_chunked [OF h1 h2 h3 h4 h5]
  have data: "(\<exists>w'. spi_send_data ?p (Some ?bs) 70 flaky_world = Some (ESP_OK, w')
      \<and> events w' = [Spi_device_polling_transmit 0x3FFC0000 (chunk_txn ?p 1 ?bs)])
      \<and> unpack_dc (user (chunk_txn ?p 1 ?bs)) = 1"
  proof -
    from main [THEN conjunct1] obtain r w' sent where
      run: "spi_send_data ?p (Some ?bs) 70 flaky_world = Some (r, w')"
      and ev: "events w' = events flaky_world
          @ map (\<lambda>b. Spi_device_polling_transmit (dev example_ctx) (chunk_txn ?p 1 b)) sent"
      and sz: "\<forall>b \<in> set sent. 0 < length b \<and> length b \<le> 1024"
      and pf: "prefix (concat sent) (take 70 ?bs)"
      and pre: "sent = take (length sent) (chunks_of 1024 (take 70 ?bs))"
      and ok: "(\<forall>j < length sent. transmit_ret flaky_world j = ESP_OK) \<longrightarrow>
                 r = ESP_OK \<and> concat sent = take 70 ?bs"
      and bad: "\<forall>j < length sent. transmit_ret flaky_world j \<noteq> ESP_OK \<longrightarrow>
                 r = transmit_ret flaky_world j \<and> length sent = Suc j"
      and mark: "\<forall>b \<in> set sent.
                 tx_buffer (chunk_txn ?p 1 b) = b
               \<and> t_length (chunk_txn ?p 1 b) = of_nat (8 * length b)
               \<and> unpack_ctx (user (chunk_txn ?p 1 b)) = ?p
               \<and> unpack_dc (user (chunk_txn ?p 1 b)) = 1
               \<and> (\<forall>v. heap v ?p = Some example_ctx \<longrightarrow>
                     spi_pre_cb_set_dc (chunk_txn ?p 1 b) v =
                       Some (if dc_gpio example_ctx = GPIO_NUM_NC then v
                             else gpio_set_level (dc_gpio example_ctx) 1 v))"
      by (elim exE conjE)
    define k where "k = length sent"
    have sk: "sent = take k [?bs]"
      using pre unfolding big k_def .
    have "\<forall>j < length sent. transmit_ret flaky_world j = ESP_OK"
      unfolding sk by (simp add: ret)
    with ok have r: "r = ESP_OK" and cat: "concat sent = take 70 ?bs" by simp_all
    from cat have "k \<noteq> 0" unfolding sk by (cases k) simp_all
    then have all: "sent = [?bs]" unfolding sk by (cases k) simp_all
    with mark have "unpack_dc (user (chunk_txn ?p 1 ?bs)) = 1" by simp
    moreover from run r ev ev0 dv all
    have "spi_send_data ?p (Some ?bs) 70 flaky_world = Some (ESP_OK, w')
      \<and> events w' = [Spi_device_polling_transmit 0x3FFC0000 (chunk_txn ?p 1 ?bs)]"
      by simp
    ultimately show ?thesis by blast
  qed
  have cmd: "(\<exists>w'. spi_send_cmd ?p (Some ?bs) 70 flaky_world = Some (0x107, w')
      \<and> events w' =
          [Spi_device_polling_transmit 0x3FFC0000 (chunk_txn ?p 0 (replicate 32 0xAE)),
           Spi_device_polling_transmit 0x3FFC0000 (chunk_txn ?p 0 (replicate 32 0xAE))])
      \<and> unpack_dc (user (chunk_txn ?p 0 (replicate 32 0xAE))) = 0"
  proof -
    from main [THEN conjunct2] obtain r w' sent where
      run: "spi_send_cmd ?p (Some ?bs) 70 flaky_world = Some (r, w')"
      and ev: "events w' = events flaky_world
          @ map (\<lambda>b. Spi_device_polling_transmit (dev example_ctx) (chunk_txn ?p 0 b)) sent"
      and sz: "\<forall>b \<in> set sent. 0 < length b \<and> length b \<le> 32"
      and pf: "prefix (concat sent) (take 70 ?bs)"
      and pre: "sent = take (length sent) (chunks_of 32 (take 70 ?bs))"
      and ok: "(\<forall>j < length sent. transmit_ret flaky_world j = ESP_OK) \<longrightarrow>
                 r = ESP_OK \<and> concat sent = take 70 ?bs"
      and bad: "\<forall>j < length sent. transmit_ret flaky_world j \<noteq> ESP_OK \<longrightarrow>
                 r = transmit_ret flaky_world j \<and> length sent = Suc j"
      and mark: "\<forall>b \<in> set sent.
                 tx_buffer (chunk_txn ?p 0 b) = b
               \<and> t_length (chunk_txn ?p 0 b) = of_nat (8 * length b)
               \<and> unpack_ctx (user (chunk_txn ?p 0 b)) = ?p
               \<and> unpack_dc (user (chunk_txn ?p 0 b)) = 0
               \<and> (\<forall>v. heap v ?p = Some example_ctx \<longrightarrow>
                     spi_pre_cb_set_dc (chunk_txn ?p 0 b) v =
                       Some (if dc_gpio example_ctx = GPIO_NUM_NC then v
                             else gpio_set_level (dc_gpio example_ctx) 0 v))"
      by (elim exE conjE)
    define k where "k = length sent"
    have sk: "sent = take k [replicate 32 0xAE, replicate 32 0xAE, replicate 6 (0xAE :: uint8_t)]"
      using pre unfolding small k_def .
    have two: "1 < k"
    proof (rule ccontr)
      assume "\<not> 1 < k"
      then consider "k = 0" | "k = 1" by linarith
      then have short: "length (concat sent) \<le> 32"
        unfolding sk by cases simp_all
      have "\<forall>j < length sent. transmit_ret flaky_world j = ESP_OK"
        using \<open>\<not> 1 < k\<close> unfolding sk by (simp add: ret)
      with ok have "concat sent = take 70 ?bs" by simp
      with short show False by simp
    qed
    then have "1 < length sent" unfolding sk by simp
    with bad ret [of 1] have r: "r = 0x107" and len: "length sent = 2"
      by (auto simp add: ESP_OK_def)
    from len have "k = 2" unfolding k_def .
    then have all: "sent = [replicate 32 0xAE, replicate 32 0xAE]"
      unfolding sk by (simp add: numeral_2_eq_2)
    with mark have "unpack_dc (user (chunk_txn ?p 0 (replicate 32 0xAE))) = 0" by simp
    moreover from run r ev ev0 dv all
    have "spi_send_cmd ?p (Some ?bs) 70 flaky_world = Some (0x107, w')
      \<and> events w' =
          [Spi_device_polling_transmit 0x3FFC0000 (chunk_txn ?p 0 (replicate 32 0xAE)),
           Spi_device_polling_transmit 0x3FFC0000 (chunk_txn ?p 0 (replicate 32 0xAE))]"
      by simp
    ultimately show ?thesis by blast
  qed
  from h1 h2 h3 h4 h5 data cmd show ?thesis by blast
qed

subsection \<open>The transport primitives on null and empty arguments\<close>

text \<open>
  Claim C4. Called with a null context, a null payload pointer or a zero length,
  \<open>spi_send_cmd\<close> and \<open>spi_send_data\<close> return \<open>ESP_OK\<close> and leave the world as it was:
  no platform call is made, so no bus transaction. \<open>spi_reset\<close>, which takes no payload,
  does the same on a null context.
\<close>

theorem null_or_empty_payload_noop:
  assumes "ctx = NULL \<or> payload = None \<or> n = 0"
  shows "spi_send_cmd ctx payload n w = Some (ESP_OK, w)
       \<and> spi_send_data ctx payload n w = Some (ESP_OK, w)
       \<and> spi_reset NULL w = Some (ESP_OK, w)"
  using assms
  by (auto simp add: spi_send_cmd_def spi_send_data_def spi_reset_def split: option.split)

theorem null_or_empty_payload_noop_witness:
  "((0x3FFB0010 :: uintptr_t) = NULL \<or> Some [0xAE :: uint8_t] = None \<or> (0 :: nat) = 0)
   \<and> spi_send_cmd 0x3FFB0010 (Some [0xAE]) 0 bound_world = Some (ESP_OK, bound_world)
   \<and> spi_send_data 0x3FFB0010 (Some [0xAE]) 0 bound_world = Some (ESP_OK, bound_world)
   \<and> spi_reset NULL bound_world = Some (ESP_OK, bound_world)"
proof -
  have h: "(0x3FFB0010 :: uintptr_t) = NULL \<or> Some [0xAE :: uint8_t] = None \<or> (0 :: nat) = 0"
    by simp
  from null_or_empty_payload_noop [OF h, of bound_world] h show ?thesis by blast
qed

subsection \<open>Hardware reset through the vtable\<close>




subsection \<open>Binding\<close>

text \<open>
  Claim C6. With a null device handle, or with the data/command pin not connected,
  \<open>ssd1306_bind_spi\<close> returns \<open>ESP_ERR_INVALID_ARG\<close>; the handle and the world come
  back as they were, so nothing was registered on the bus.
\<close>

theorem bind_rejects_missing_handle_or_dc:
  assumes "d = None \<or> dc = GPIO_NUM_NC"
  shows "ssd1306_bind_spi d hst cs_gpio dc rst clk w = Some (ESP_ERR_INVALID_ARG, d, w)"
  using assms by (auto simp add: ssd1306_bind_spi_def split: option.split)

theorem bind_rejects_missing_handle_or_dc_witness:
  "(Some unbound_handle = None \<or> GPIO_NUM_NC = GPIO_NUM_NC)
   \<and> ssd1306_bind_spi (Some unbound_handle) 1 5 GPIO_NUM_NC 16 8000000 example_world =
       Some (ESP_ERR_INVALID_ARG, Some unbound_handle, example_world)"
proof -
  have h: "Some unbound_handle = None \<or> GPIO_NUM_NC = GPIO_NUM_NC" by simp
  from bind_rejects_missing_handle_or_dc [OF h, of 1 5 16 8000000 example_world] h
  show ?thesis by blast
qed

text \<open>
  Claim C3. When the device was registered and the allocation of the context then
  fails, \<open>ssd1306_bind_spi\<close> removes that device from the bus, returns \<open>ESP_ERR_NO_MEM\<close>
  and hands the handle back untouched: a handle that was unbound is still unbound, with
  neither pointer set. No context is left allocated.
\<close>

theorem bind_alloc_failure_rolls_back:
  assumes "dc \<noteq> GPIO_NUM_NC" and "pin_ok dc" and "pin_ok rst"
    and "add_device_ret w 0 = (ESP_OK, dv)"
    and "calloc_ret w 0 = NULL"
  shows "\<exists>w'. ssd1306_bind_spi (Some h) hst cs_gpio dc rst clk w = Some (ESP_ERR_NO_MEM, Some h, w')
           \<and> events w' = events w @ conf_output_events dc 0 @ conf_output_events rst 1
                 @ [Spi_bus_add_device hst (bind_devcfg (if clk \<le> 0 then 8000000 else clk) cs_gpio),
                    Calloc, Spi_bus_remove_device dv]
           \<and> heap w' = heap w"
  using assms
  by (simp add: ssd1306_bind_spi_def gpio_conf_output_ok bind_devcfg_def platform_defs Let_def)

theorem bind_alloc_failure_rolls_back_witness:
  "(4 :: gpio_num_t) \<noteq> GPIO_NUM_NC \<and> pin_ok 4 \<and> pin_ok 16
   \<and> add_device_ret nomem_world 0 = (ESP_OK, 0x3FFC0000)
   \<and> calloc_ret nomem_world 0 = NULL
   \<and> (\<exists>w'. ssd1306_bind_spi (Some unbound_handle) 1 5 4 16 0 nomem_world =
               Some (ESP_ERR_NO_MEM, Some unbound_handle, w')
          \<and> removed_devices (events w') = [0x3FFC0000]
          \<and> heap w' = heap nomem_world)"
proof -
  have h1: "(4 :: gpio_num_t) \<noteq> GPIO_NUM_NC" by (simp add: GPIO_NUM_NC_def)
  have h2: "pin_ok 4" and h3: "pin_ok 16" by simp_all
  have h4: "add_device_ret nomem_world 0 = (ESP_OK, 0x3FFC0000)"
    by (simp add: nomem_world_def example_world_def)
  have h5: "calloc_ret nomem_world 0 = NULL" by (simp add: nomem_world_def)
  from bind_alloc_failure_rolls_back [OF h1 h2 h3 h4 h5, of unbound_handle 1 5 0]
  obtain w' where
    r: "ssd1306_bind_spi (Some unbound_handle) 1 5 4 16 0 nomem_world =
          Some (ESP_ERR_NO_MEM, Some unbound_handle, w')"
    and ev: "events w' = events nomem_world @ conf_output_events 4 0 @ conf_output_events 16 1
               @ [Spi_bus_add_device 1 (bind_devcfg (if (0::int) \<le> 0 then 8000000 else 0) 5),
                  Calloc, Spi_bus_remove_device 0x3FFC0000]"
    and hp: "heap w' = heap nomem_world"
    by blast
  from ev have "removed_devices (events w') = [0x3FFC0000]"
    by (simp add: conf_output_events_def nomem_world_def example_world_def)
  with r hp h1 h2 h3 h4 h5 show ?thesis by blast
qed




text \<open>
  Claim C10. A clock argument of zero or less is not rejected: \<open>ssd1306_bind_spi\<close> then
  behaves in every respect as if it had been called with 8000000. In particular, when
  the pins are accepted and registration and allocation succeed, it returns \<open>ESP_OK\<close>,
  the device is registered with \<open>clock_speed_hz = 8000000\<close> and the context holds
  \<open>clk_hz = 8000000\<close>.
\<close>

theorem bind_nonpositive_clock_defaults:
  assumes "clk \<le> 0"
  shows "ssd1306_bind_spi d hst cs_gpio dc rst clk w = ssd1306_bind_spi d hst cs_gpio dc rst 8000000 w
       \<and> (dc \<noteq> GPIO_NUM_NC \<and> pin_ok dc \<and> pin_ok rst
            \<and> fst (add_device_ret w 0) = ESP_OK \<and> calloc_ret w 0 \<noteq> NULL \<longrightarrow>
          (\<exists>w' tail.
             ssd1306_bind_spi (Some h) hst cs_gpio dc rst clk w =
               Some (ESP_OK, Some (h\<lparr>vt := Some VT_SPI, bus_ctx := calloc_ret w 0\<rparr>), w')
           \<and> events w' = events w @ conf_output_events dc 0 @ conf_output_events rst 1
                 @ Spi_bus_add_device hst (bind_devcfg 8000000 cs_gpio) # tail
           \<and> heap w' (calloc_ret w 0) =
                Some \<lparr>dev = snd (add_device_ret w 0), host = hst, dc_gpio = dc,
                      rst_gpio = rst, clk_hz = 8000000\<rparr>))"
  using assms
  by (auto simp add: ssd1306_bind_spi_def gpio_conf_output_ok bind_devcfg_def platform_defs Let_def
      split: option.split prod.split)

theorem bind_nonpositive_clock_defaults_witness:
  "(-5 :: int) \<le> 0
   \<and> ssd1306_bind_spi (Some unbound_handle) 1 5 4 16 (-5) example_world =
       ssd1306_bind_spi (Some unbound_handle) 1 5 4 16 8000000 example_world
   \<and> (\<exists>w'. ssd1306_bind_spi (Some unbound_handle) 1 5 4 16 (-5) example_world =
               Some (ESP_OK, Some (unbound_handle\<lparr>vt := Some VT_SPI, bus_ctx := 0x3FFB0010\<rparr>), w')
          \<and> heap w' 0x3FFB0010 =
               Some \<lparr>dev = 0x3FFC0000, host = 1, dc_gpio = 4, rst_gpio = 16, clk_hz = 8000000\<rparr>)"
proof -
  have h: "(-5 :: int) \<le> 0" by simp
  have pre: "(4 :: gpio_num_t) \<noteq> GPIO_NUM_NC \<and> pin_ok 4 \<and> pin_ok 16
      \<and> fst (add_device_ret example_world 0) = ESP_OK \<and> calloc_ret example_world 0 \<noteq> NULL"
    by (simp add: example_world_def GPIO_NUM_NC_def NULL_def)
  from bind_nonpositive_clock_defaults [OF h, of "Some unbound_handle" 1 5 4 16 example_world
      unbound_handle] pre
  have eq: "ssd1306_bind_spi (Some unbound_handle) 1 5 4 16 (-5) example_world =
            ssd1306_bind_spi (Some unbound_handle) 1 5 4 16 8000000 example_world"
    and "\<exists>w' tail.
           ssd1306_bind_spi (Some unbound_handle) 1 5 4 16 (-5) example_world =
             Some (ESP_OK,
                   Some (unbound_handle\<lparr>vt := Some VT_SPI, bus_ctx := calloc_ret example_world 0\<rparr>), w')
         \<and> events w' = events example_world @ conf_output_events 4 0 @ conf_output_events 16 1
               @ Spi_bus_add_device 1 (bind_devcfg 8000000 5) # tail
         \<and> heap w' (calloc_ret example_world 0) =
              Some \<lparr>dev = snd (add_device_ret example_world 0), host = 1, dc_gpio = 4,
                    rst_gpio = 16, clk_hz = 8000000\<rparr>"
    by blast+
  then have "\<exists>w'. ssd1306_bind_spi (Some unbound_handle) 1 5 4 16 (-5) example_world =
               Some (ESP_OK, Some (unbound_handle\<lparr>vt := Some VT_SPI, bus_ctx := 0x3FFB0010\<rparr>), w')
          \<and> heap w' 0x3FFB0010 =
               Some \<lparr>dev = 0x3FFC0000, host = 1, dc_gpio = 4, rst_gpio = 16, clk_hz = 8000000\<rparr>"
    by (auto simp add: example_world_def)
  with h eq show ?thesis by blast
qed

subsection \<open>Unbinding\<close>

text \<open>
  Claim C8. On a handle whose context is live and holds a device, \<open>ssd1306_unbind_spi\<close>
  adds to the log, in this order: one \<open>spi_bus_remove_device\<close> of that device, a
  \<open>gpio_config\<close> with \<open>GPIO_MODE_DISABLE\<close> for the data/command pin and one for the reset
  pin (for each pin that is connected), the \<open>free\<close> of the context, and the stores of
  null into the context pointer and into the vtable pointer, one right after the other.
  The device is removed exactly once, the context is no longer allocated, and the handle
  comes back with the context pointer and the vtable pointer both null. The status is the one
  \<open>spi_bus_remove_device\<close> gave.
\<close>

theorem unbind_releases_everything:
  assumes "bus_ctx h \<noteq> NULL" and "heap w (bus_ctx h) = Some c" and "dev c \<noteq> NULL"
    and "pin_ok (dc_gpio c)" and "pin_ok (rst_gpio c)"
  shows "\<exists>w' new.
           ssd1306_unbind_spi (Some h) w =
             Some (remove_device_ret w 0, Some (h\<lparr>bus_ctx := NULL, vt := None\<rparr>), w')
         \<and> events w' = events w @ new
         \<and> new = [Spi_bus_remove_device (dev c)] @ conf_disable_events (dc_gpio c)
                   @ conf_disable_events (rst_gpio c)
                   @ [Free (bus_ctx h), Store_bus_ctx NULL, Store_vt VT_NULL]
         \<and> removed_devices new = [dev c]
         \<and> heap w' = (heap w)(bus_ctx h := None)"
  using assms
  by (simp add: ssd1306_unbind_spi_def gpio_conf_disable_ok platform_defs Let_def)

theorem unbind_releases_everything_witness:
  "bus_ctx bound_handle \<noteq> NULL
   \<and> heap bound_world (bus_ctx bound_handle) = Some example_ctx
   \<and> dev example_ctx \<noteq> NULL
   \<and> pin_ok (dc_gpio example_ctx) \<and> pin_ok (rst_gpio example_ctx)
   \<and> (\<exists>w'. ssd1306_unbind_spi (Some bound_handle) bound_world =
               Some (ESP_OK, Some unbound_handle, w')
          \<and> removed_devices (events w') = [0x3FFC0000]
          \<and> heap w' 0x3FFB0010 = None)"
proof -
  have h1: "bus_ctx bound_handle \<noteq> NULL" by (simp add: bound_handle_def NULL_def)
  have h2: "heap bound_world (bus_ctx bound_handle) = Some example_ctx"
    by (simp add: bound_world_def bound_handle_def)
  have h3: "dev example_ctx \<noteq> NULL" by (simp add: example_ctx_def NULL_def)
  have h4: "pin_ok (dc_gpio example_ctx)" and h5: "pin_ok (rst_gpio example_ctx)"
    by (simp_all add: example_ctx_def)
  from unbind_releases_everything [OF h1 h2 h3 h4 h5]
  obtain w' new where
    r: "ssd1306_unbind_spi (Some bound_handle) bound_world =
          Some (remove_device_ret bound_world 0,
                Some (bound_handle\<lparr>bus_ctx := NULL, vt := None\<rparr>), w')"
    and ev: "events w' = events bound_world @ new"
    and rm: "removed_devices new = [dev example_ctx]"
    and hp: "heap w' = (heap bound_world)(bus_ctx bound_handle := None)"
    by blast
  from r have "ssd1306_unbind_spi (Some bound_handle) bound_world =
      Some (ESP_OK, Some unbound_handle, w')"
    by (simp add: bound_world_def example_world_def bound_handle_def unbound_handle_def)
  moreover from ev rm have "removed_devices (events w') = [0x3FFC0000]"
    by (simp add: bound_world_def example_world_def example_ctx_def)
  moreover from hp have "heap w' 0x3FFB0010 = None"
    by (simp add: bound_handle_def)
  ultimately show ?thesis using h1 h2 h3 h4 h5 by blast
qed

subsection \<open>Bound or unbound, never half\<close>

lemma bind_preserves:
  assumes "bound_or_unbound d" and "ctx_live d w" and "pin_ok dc" and "pin_ok rst"
  shows "\<exists>e d1 w1. ssd1306_bind_spi d hst cs_gpio dc rst clk w = Some (e, d1, w1)
           \<and> bound_or_unbound d1 \<and> ctx_live d1 w1"
proof (cases d)
  case None
  then show ?thesis
    by (simp add: ssd1306_bind_spi_def bound_or_unbound_def ctx_live_def)
next
  case (Some h)
  show ?thesis
  proof (cases "dc = GPIO_NUM_NC")
    case True
    with Some assms show ?thesis
      by (simp add: ssd1306_bind_spi_def)
  next
    case False
    with Some assms show ?thesis
      by (auto simp add: ssd1306_bind_spi_def gpio_conf_output_ok platform_defs Let_def
          bound_or_unbound_def ctx_live_def split: prod.split option.split)
  qed
qed

lemma unbind_preserves:
  assumes "bound_or_unbound d" and "ctx_live d w"
  shows "\<exists>e d1 w1. ssd1306_unbind_spi d w = Some (e, d1, w1)
           \<and> bound_or_unbound d1 \<and> ctx_live d1 w1"
proof (cases d)
  case None
  then show ?thesis
    by (simp add: ssd1306_unbind_spi_def bound_or_unbound_def ctx_live_def)
next
  case (Some h)
  show ?thesis
  proof (cases "bus_ctx h = NULL")
    case True
    with Some assms show ?thesis
      by (simp add: ssd1306_unbind_spi_def)
  next
    case False
    with Some assms obtain c where c: "heap w (bus_ctx h) = Some c"
      "pin_ok (dc_gpio c)" "pin_ok (rst_gpio c)"
      by (auto simp add: ctx_live_def split: option.splits)
    with Some False show ?thesis
      by (auto simp add: ssd1306_unbind_spi_def gpio_conf_disable_ok platform_defs Let_def
          bound_or_unbound_def ctx_live_def split: prod.split)
  qed
qed

text \<open>
  Claim C2. Start from a handle that is bound or unbound (not half), whose context, if
  any, is live. After any sequence of \<open>ssd1306_bind_spi\<close> and \<open>ssd1306_unbind_spi\<close>
  calls on it with pins the GPIO helpers accept, whatever the platform answers and
  whatever status each call returns, the run is defined and the handle's vtable pointer
  and context pointer are both null or both set.
\<close>

theorem bind_unbind_never_partially_bound:
  assumes "bound_or_unbound d" and "ctx_live d w" and "list_all call_ok calls"
  shows "\<exists>d' w'. run_calls calls d w = Some (d', w') \<and> bound_or_unbound d'"
  using assms
proof (induction calls arbitrary: d w)
  case Nil
  then show ?case by simp
next
  case (Cons c calls)
  show ?case
  proof (cases c)
    case (Bind_spi hst cs_gpio dc rst clk)
    with Cons.prems have "pin_ok dc" "pin_ok rst" by simp_all
    from bind_preserves [OF Cons.prems(1,2) this, of hst cs_gpio clk]
    obtain e d1 w1 where
      step: "ssd1306_bind_spi d hst cs_gpio dc rst clk w = Some (e, d1, w1)"
      and inv: "bound_or_unbound d1" "ctx_live d1 w1"
      by blast
    from Cons.prems have "list_all call_ok calls" by simp
    from Cons.IH [OF inv this] step Bind_spi show ?thesis by simp
  next
    case Unbind_spi
    from unbind_preserves [OF Cons.prems(1,2)]
    obtain e d1 w1 where
      step: "ssd1306_unbind_spi d w = Some (e, d1, w1)"
      and inv: "bound_or_unbound d1" "ctx_live d1 w1"
      by blast
    from Cons.prems have "list_all call_ok calls" by simp
    from Cons.IH [OF inv this] step Unbind_spi show ?thesis by simp
  qed
qed

theorem bind_unbind_never_partially_bound_witness:
  "bound_or_unbound (Some unbound_handle)
   \<and> ctx_live (Some unbound_handle) example_world
   \<and> list_all call_ok
        [Bind_spi 1 5 4 16 0, Unbind_spi, Bind_spi 1 5 GPIO_NUM_NC 16 0, Unbind_spi]
   \<and> (\<exists>d' w'.
         run_calls [Bind_spi 1 5 4 16 0, Unbind_spi, Bind_spi 1 5 GPIO_NUM_NC 16 0, Unbind_spi]
           (Some unbound_handle) example_world = Some (d', w')
       \<and> bound_or_unbound d')"
proof -
  have h1: "bound_or_unbound (Some unbound_handle)"
    by (simp add: bound_or_unbound_def unbound_handle_def)
  have h2: "ctx_live (Some unbound_handle) example_world"
    by (simp add: ctx_live_def unbound_handle_def)
  have h3: "list_all call_ok
      [Bind_spi 1 5 4 16 0, Unbind_spi, Bind_spi 1 5 GPIO_NUM_NC 16 0, Unbind_spi]"
    by simp
  from bind_unbind_never_partially_bound [OF h1 h2 h3] h1 h2 h3 show ?thesis by blast
qed

subsection \<open>Two runs, evaluated\<close>

text \<open>
  Seventy command bytes on a bus whose second transaction times out: two transactions of
  32 bytes are made, the third chunk is never sent, and the status is the timeout's code.
\<close>

lemma spi_send_cmd_flaky_example:
  "map_option
     (\<lambda>(r, w'). (r, map (\<lambda>e. case e of
                                 Spi_device_polling_transmit dv t \<Rightarrow> length (tx_buffer t)
                               | _ \<Rightarrow> 0) (events w')))
     (spi_send_cmd 0x3FFB0010 (Some (replicate 70 0xAE)) 70 flaky_world)
   = Some (0x107, [32, 32])"
  by (simp add: spi_send_cmd_def spi_send_cmd_loop.simps platform_defs example_defs Let_def)

text \<open>
  Binding a fresh handle and unbinding it at once: the handle is unbound again, the one
  device that was registered has been removed once, and no context stays allocated.
\<close>

lemma bind_then_unbind_example:
  "map_option (\<lambda>(d, w'). (d, removed_devices (events w'), heap w' 0x3FFB0010))
     (run_calls [Bind_spi 1 5 4 16 0, Unbind_spi] (Some unbound_handle) example_world)
   = Some (Some unbound_handle, [0x3FFC0000], None)"
  by (simp add: ssd1306_bind_spi_def ssd1306_unbind_spi_def gpio_conf_output_ok
      gpio_conf_disable_ok conf_output_events_def conf_disable_events_def platform_defs
      example_defs Let_def)

end
